theory Spec2Isabelle
  imports Main "HOL-Library.Char_ord" "HOL-Library.List_Lexorder"
begin

section \<open>Package controllers: the topic handlers (controllers/topic.go)\<close>

subsection \<open>Data\<close>

text \<open>
  A Go \<open>error\<close> value. \<open>NewAppError\<close> is the constructor of package models, called with
  its four arguments; \<open>NumError\<close> is \<open>strconv.NumError\<close> with its fields \<open>Func\<close>, \<open>Num\<close>
  and \<open>Err\<close>; \<open>Failure\<close> is any other error value (from the query parser, the storage
  or a library), carrying its message.
\<close>

datatype error =
    NewAppError string string string int
  | NumError string string error
  | Failure string

text \<open>
  \<open>models.MongoQuery\<close>. The struct is declared in package models; the handlers only ever
  set its \<open>Slug\<close> field. The remaining filter fields are kept as a list of field/value
  pairs whose zero value is the empty list.
\<close>

record MongoQuery =
  Slug :: string
  Filters :: "(string \<times> string) list"

definition zero_MongoQuery :: MongoQuery where
  "zero_MongoQuery = \<lparr>Slug = [], Filters = []\<rparr>"

text \<open>\<open>models.MetaOfResponse\<close>: Go \<open>int\<close> fields, only assigned and compared with 0 here.\<close>

record MetaOfResponse =
  Total :: int
  Offset :: int
  Limit :: int

text \<open>
  A Go slice of topics is \<open>'t list option\<close>: \<open>None\<close> is the nil slice (rendered as JSON
  \<open>null\<close>), \<open>Some []\<close> the empty non-nil slice made by \<open>make([]models.Topic, 0)\<close>
  (rendered as \<open>[]\<close>). The handlers never look inside a topic, so its type is a parameter.

  \<open>gin.H\<close> is \<open>map[string]interface{}\<close>: a finite map from keys to dynamically typed values.
\<close>

datatype 't hval =
    HString string
  | HTopics "'t list option"
  | HTopic 't
  | HMeta MetaOfResponse

type_synonym 't ginH = "string \<rightharpoonup> 't hval"

text \<open>What a handler returns: \<open>(int, gin.H, error)\<close>.\<close>

type_synonym 't response = "int \<times> 't ginH \<times> error option"

text \<open>
  The storage collaborator (\<open>nc.Storage\<close>). Each read returns Go's triple
  \<open>(topics, total, err)\<close>; the trailing \<open>nil\<close> argument of the calls is constant and left out.
\<close>

type_synonym 't topics_result = "'t list option \<times> int \<times> error option"

record 't NewsStorage =
  GetFullTopics :: "MongoQuery \<Rightarrow> int \<Rightarrow> int \<Rightarrow> string \<Rightarrow> 't topics_result"
  GetMetaOfTopics :: "MongoQuery \<Rightarrow> int \<Rightarrow> int \<Rightarrow> string \<Rightarrow> 't topics_result"

record 't NewsController =
  Storage :: "'t NewsStorage"

text \<open>The storage calls a handler makes, in order, with their arguments.\<close>

datatype storage_call =
    Call_GetFullTopics MongoQuery int int string
  | Call_GetMetaOfTopics MongoQuery int int string

text \<open>What the storage answers to a recorded call.\<close>

fun run_call :: "'t NewsStorage \<Rightarrow> storage_call \<Rightarrow> 't topics_result" where
  "run_call st (Call_GetFullTopics mq limit offset sort_s) = GetFullTopics st mq limit offset sort_s"
| "run_call st (Call_GetMetaOfTopics mq limit offset sort_s) = GetMetaOfTopics st mq limit offset sort_s"

text \<open>
  The six results of \<open>nc.GetQueryParam(c)\<close>, in the order the source binds them:
  \<open>err, mq, limit, offset, sort, full\<close>. The parser itself is not part of these sources;
  its result is the input of the model.
\<close>

type_synonym query_param = "error option \<times> MongoQuery \<times> int \<times> int \<times> string \<times> bool"

definition StatusOK :: int where "StatusOK = 200"
definition StatusNotFound :: int where "StatusNotFound = 404"

subsection \<open>GetTopics\<close>

text \<open>The success envelope built at lines 22-26 and 53-57 (\<open>total_n\<close> and \<open>sort_s\<close> are the source's \<open>total\<close> and \<open>sort\<close>).\<close>

definition records_envelope :: "'t list option \<Rightarrow> int \<Rightarrow> int \<Rightarrow> int \<Rightarrow> 't ginH" where
  "records_envelope topics total_n offset limit =
     [''status'' \<mapsto> HString ''ok'',
      ''records'' \<mapsto> HTopics topics,
      ''meta'' \<mapsto> HMeta \<lparr>Total = total_n, Offset = offset, Limit = limit\<rparr>]"

text \<open>
  \<open>GetTopics\<close>, with \<open>toPostResponse\<close> (a function of the package that is not in this file)
  as a parameter. The result is the list of storage calls made and the handler's return value;
  \<open>call\<close> is the storage call of lines 37-41 and \<open>res\<close> what it returns.
\<close>

definition GetTopics ::
  "(error \<Rightarrow> 't response) \<Rightarrow> 't NewsController \<Rightarrow> query_param \<Rightarrow> storage_call list \<times> 't response"
where
  "GetTopics toPostResponse nc qp =
     (case qp of (err, mq, limit, offset, sort_s, full) \<Rightarrow>
        let total_n = 0;
            topics = Some []
        in if err \<noteq> None
           then ([], (StatusOK, records_envelope topics total_n offset limit, None))
           else
             let limit = (if limit = 0 then 10 else limit);
                 sort_s = (if sort_s = [] then ''-publishedDate'' else sort_s);
                 call = (if full then Call_GetFullTopics mq limit offset sort_s
                         else Call_GetMetaOfTopics mq limit offset sort_s);
                 res = run_call (Storage nc) call
             in case res of (topics, total_n, err) \<Rightarrow>
                  (case err of
                     Some e \<Rightarrow> ([call], toPostResponse e)
                   | None \<Rightarrow>
                       let topics = (if topics = None then Some [] else topics)
                       in ([call], (StatusOK, records_envelope topics total_n offset limit, None))))"

subsection \<open>GetATopic\<close>

text \<open>
  \<open>strconv.ParseBool\<close> of the Go standard library: twelve literals are accepted, anything
  else gives \<open>false\<close> and a syntax error.
\<close>

definition ErrSyntax :: error where
  "ErrSyntax = Failure ''invalid syntax''"

definition ParseBool :: "string \<Rightarrow> bool \<times> error option" where
  "ParseBool str =
     (if str \<in> set [''1'', ''t'', ''T'', ''TRUE'', ''true'', ''True''] then (True, None)
      else if str \<in> set [''0'', ''f'', ''F'', ''FALSE'', ''false'', ''False''] then (False, None)
      else (False, Some (NumError ''ParseBool'' str ErrSyntax)))"

definition not_found_body :: "'t ginH" where
  "not_found_body = [''status'' \<mapsto> HString ''Record Not Found'', ''error'' \<mapsto> HString ''Record Not Found'']"

definition record_envelope :: "'t \<Rightarrow> 't ginH" where
  "record_envelope t = [''status'' \<mapsto> HString ''ok'', ''record'' \<mapsto> HTopic t]"

text \<open>
  \<open>GetATopic\<close>. Its inputs are \<open>c.Param("slug")\<close> and \<open>c.Query("full")\<close> (the empty string
  when the parameter is absent). \<open>len(topics) == 0\<close> holds for the nil and for the empty
  slice; \<open>topics[0]\<close> is only read behind that test.
\<close>

definition GetATopic ::
  "(error \<Rightarrow> 't response) \<Rightarrow> 't NewsController \<Rightarrow> string \<Rightarrow> string \<Rightarrow> storage_call list \<times> 't response"
where
  "GetATopic toPostResponse nc slug fullq =
     (let full = fst (ParseBool fullq);
          mq = zero_MongoQuery\<lparr>Slug := slug\<rparr>;
          call = (if full then Call_GetFullTopics mq 1 0 ''-publishedDate''
                  else Call_GetMetaOfTopics mq 1 0 ''-publishedDate'');
          res = run_call (Storage nc) call
      in case res of (topics, _, err) \<Rightarrow>
           (case err of
              Some e \<Rightarrow> ([call], toPostResponse e)
            | None \<Rightarrow>
                (case topics of
                   None \<Rightarrow> ([call], (StatusNotFound, not_found_body, None))
                 | Some [] \<Rightarrow> ([call], (StatusNotFound, not_found_body, None))
                 | Some (t # _) \<Rightarrow> ([call], (StatusOK, record_envelope t, None)))))"


section \<open>Package facebook: the OAuth callback (controllers/oauth/facebook/facebook.go)\<close>

subsection \<open>Data\<close>

text \<open>\<open>sql.NullString\<close>, the type of the nullable text fields of the models.\<close>

record NullString =
  String :: string
  Valid :: bool

definition zero_NullString :: NullString where
  "zero_NullString = \<lparr>String = [], Valid = False\<rparr>"

text \<open>
  \<open>models.OAuthAccount\<close>, with the eight fields the handler fills in. The three fields that
  share a name with a field of the user record carry the prefix \<open>acc_\<close>.
\<close>

record OAuthAccount =
  Type :: string
  AId :: NullString
  acc_Email :: NullString
  Name :: NullString
  acc_FirstName :: NullString
  acc_LastName :: NullString
  Gender :: NullString
  Picture :: NullString

text \<open>
  \<open>models.User\<close>, with the five fields the handler reads: \<open>ID\<close> is a Go \<open>uint\<close>,
  \<open>Privilege\<close> a Go \<open>int\<close>.
\<close>

record User =
  ID :: nat
  Privilege :: int
  FirstName :: NullString
  LastName :: NullString
  Email :: NullString

definition zero_User :: User where
  "zero_User = \<lparr>ID = 0, Privilege = 0, FirstName = zero_NullString,
                 LastName = zero_NullString, Email = zero_NullString\<rparr>"

text \<open>
  \<open>url.URL\<close> of the Go standard library, as \<open>url.Parse\<close> fills it in; \<open>UserInfo\<close> is its
  \<open>User\<close> field (user name and optional password).
\<close>

record URL =
  Scheme :: string
  Opaque :: string
  UserInfo :: "(string \<times> string option) option"
  Host :: string
  Path :: string
  RawPath :: string
  ForceQuery :: bool
  RawQuery :: string
  Fragment :: string

text \<open>
  The user storage (\<open>o.Storage\<close>, of interface type \<open>storage.UserStorage\<close>). The handler
  discards whatever \<open>InsertUserByOAuth\<close> and \<open>UpdateOAuthData\<close> return.
\<close>

record UserStorage =
  GetUserDataByOAuth :: "OAuthAccount \<Rightarrow> error + User"
  InsertUserByOAuth :: "OAuthAccount \<Rightarrow> error + User"
  UpdateOAuthData :: "OAuthAccount \<Rightarrow> error option"

text \<open>The struct \<open>Facebook\<close>; its field \<open>Storage\<close> is named \<open>UserStore\<close> here.\<close>

record Facebook =
  UserStore :: UserStorage

text \<open>
  Modelled from the spec: the storage behind \<open>GetUserDataByOAuth\<close> (package storage) is
  not among the sources. The handler binds \<open>matchUser\<close> to the user value the lookup returns
  also when the lookup fails; following section 7 of the specification, a failed lookup
  hands back the zero-valued user record.
\<close>

definition matchUser_of :: "error + User \<Rightarrow> User" where
  "matchUser_of res = (case res of Inl err \<Rightarrow> zero_User | Inr user \<Rightarrow> user)"

text \<open>
  Everything else the handler consults: the configuration (\<open>utils.Cfg\<close>), the constant
  \<open>constants.Facebook\<close>, the OAuth client (\<open>oauthConf.Exchange\<close>, which yields the access
  token), the HTTP client (\<open>http.Get\<close> followed by \<open>ioutil.ReadAll\<close> of the body), \<open>gjson.Get\<close>,
  the helpers of package utils, and \<open>url.Parse\<close> and \<open>URL.String\<close> of the standard library.
  A failure of a library call is represented by its message, the string \<open>err.Error()\<close> returns.
  \<open>RetrieveToken\<close> returns Go's pair; the handler never looks at its error. \<open>Exchange\<close> is
  the call on the client configuration that \<open>BeginAuth\<close> has set up in the package variable
  \<open>oauthConf\<close>.
\<close>

record world =
  Statestr :: string
  AppPath :: string
  constants_Facebook :: string
  Exchange :: "string \<Rightarrow> string + string"
  http_Get :: "string \<Rightarrow> string + (string + string)"
  gjson_Get :: "string \<Rightarrow> string \<Rightarrow> string"
  ToNullString :: "string \<Rightarrow> NullString"
  GetGender :: "string \<Rightarrow> NullString"
  RetrieveToken :: "nat \<Rightarrow> int \<Rightarrow> string \<Rightarrow> string \<Rightarrow> string \<Rightarrow> string \<times> error option"
  url_Parse :: "string \<Rightarrow> string + URL"
  url_String :: "URL \<Rightarrow> string"

text \<open>
  The part of the callback request the handler reads: \<open>c.Query("location")\<close>,
  \<open>r.FormValue("state")\<close> and \<open>r.FormValue("code")\<close>.
\<close>

record request =
  query_location :: string
  form_state :: string
  form_code :: string

text \<open>
  What the handler does to the outside, in order: calls of the OAuth client, the HTTP client,
  the storage and the token helper, and what it writes to the response (\<open>http.Redirect\<close>,
  \<open>c.Redirect\<close>, \<open>c.JSON\<close>; every value of the \<open>gin.H\<close> bodies written here is a string).
  Log output is left out.
\<close>

datatype event =
    Ev_Exchange string
  | Ev_Get string
  | Ev_GetUserDataByOAuth OAuthAccount
  | Ev_InsertUserByOAuth OAuthAccount
  | Ev_UpdateOAuthData OAuthAccount
  | Ev_RetrieveToken nat int string string string
  | Ev_Redirect string int
  | Ev_JSON int "string \<rightharpoonup> string"

definition StatusTemporaryRedirect :: int where "StatusTemporaryRedirect = 307"
definition StatusUnauthorized :: int where "StatusUnauthorized = 401"

subsection \<open>Query strings: \<open>url.QueryEscape\<close> and \<open>url.Values\<close>\<close>

text \<open>
  \<open>url.QueryEscape\<close>: letters, digits and \<open>- _ . ~\<close> stay, a space becomes \<open>+\<close>, every other
  byte becomes \<open>%XX\<close> with upper-case hexadecimal digits.
\<close>

definition shouldEscape :: "char \<Rightarrow> bool" where
  "shouldEscape c =
     (let n = (of_char c :: nat)
      in \<not> ((97 \<le> n \<and> n \<le> 122) \<or> (65 \<le> n \<and> n \<le> 90) \<or> (48 \<le> n \<and> n \<le> 57)
            \<or> c \<in> set ''-_.~''))"

definition upperhex :: string where
  "upperhex = ''0123456789ABCDEF''"

fun QueryEscape :: "string \<Rightarrow> string" where
  "QueryEscape [] = []"
| "QueryEscape (c # cs) =
     (if shouldEscape c
      then (if c = CHR '' '' then ''+''
            else [CHR ''%'', upperhex ! ((of_char c :: nat) div 16), upperhex ! ((of_char c :: nat) mod 16)])
      else [c]) @ QueryEscape cs"

text \<open>
  \<open>url.Values\<close> is a map from a key to the list of its values. \<open>Add\<close> appends a value to
  the key's list; \<open>Encode\<close> walks the keys in sorted order and writes \<open>key=value\<close> pairs,
  both escaped, joined by \<open>&\<close>.
\<close>

type_synonym Values = "(string \<times> string list) list"

fun Values_Add :: "Values \<Rightarrow> string \<Rightarrow> string \<Rightarrow> Values" where
  "Values_Add [] key val = [(key, [val])]"
| "Values_Add ((k, vs) # rest) key val =
     (if k = key then (k, vs @ [val]) # rest else (k, vs) # Values_Add rest key val)"

fun encode_values :: "string \<Rightarrow> string list \<Rightarrow> string \<Rightarrow> string" where
  "encode_values prefix [] buf = buf"
| "encode_values prefix (v # vs) buf =
     encode_values prefix vs ((if buf \<noteq> [] then buf @ ''&'' else buf) @ prefix @ QueryEscape v)"

fun encode_keys :: "Values \<Rightarrow> string \<Rightarrow> string" where
  "encode_keys [] buf = buf"
| "encode_keys ((k, vs) # rest) buf = encode_keys rest (encode_values (QueryEscape k @ ''='') vs buf)"

definition Values_Encode :: "Values \<Rightarrow> string" where
  "Values_Encode v = encode_keys (sort_key fst v) []"

subsection \<open>getRemoteUserData\<close>

definition graph_me :: string where
  "graph_me = ''https://graph.facebook.com/v2.8/me?fields=id,name,email,picture,birthday,first_name,last_name,gender&access_token=''"

definition getRemoteUserData :: "world \<Rightarrow> request \<Rightarrow> event list \<times> (error + string)" where
  "getRemoteUserData w r =
     (let oauthStateString = Statestr w;
          loginPath = AppPath w @ ''/login'';
          state = form_state r
      in if state \<noteq> oauthStateString
         then ([Ev_Redirect loginPath StatusTemporaryRedirect],
               Inl (NewAppError ''OAuth state'' ''controllers.oauth.facebook'' ''Invalid oauth state'' 500))
         else
           (let code = form_code r
            in (case Exchange w code of
                  Inl err \<Rightarrow>
                    ([Ev_Exchange code, Ev_Redirect loginPath StatusTemporaryRedirect],
                     Inl (NewAppError ''Code exchange failed'' ''controllers.oauth.facebook'' err 500))
                | Inr accessToken \<Rightarrow>
                    (let target = graph_me @ QueryEscape accessToken
                     in (case http_Get w target of
                           Inl err \<Rightarrow>
                             ([Ev_Exchange code, Ev_Get target,
                               Ev_Redirect loginPath StatusTemporaryRedirect],
                              Inl (NewAppError ''Cannot get user info using Facebook API''
                                     ''controllers.oauth.facebook'' err 500))
                         | Inr body \<Rightarrow>
                             (case body of
                                Inl err \<Rightarrow>
                                  ([Ev_Exchange code, Ev_Get target,
                                    Ev_Redirect loginPath StatusTemporaryRedirect],
                                   Inl (NewAppError ''Error parsing Facebook user data''
                                          ''controllers.oauth.facebook'' err 500))
                              | Inr response \<Rightarrow>
                                  ([Ev_Exchange code, Ev_Get target], Inr response)))))))"

subsection \<open>Authenticate\<close>

text \<open>Lines 87-96: the profile decoded from the JSON text Facebook returned.\<close>

definition remoteOauth :: "world \<Rightarrow> string \<Rightarrow> OAuthAccount" where
  "remoteOauth w fstring =
     \<lparr>Type = constants_Facebook w,
      AId = ToNullString w (gjson_Get w fstring ''id''),
      acc_Email = ToNullString w (gjson_Get w fstring ''email''),
      Name = ToNullString w (gjson_Get w fstring ''name''),
      acc_FirstName = ToNullString w (gjson_Get w fstring ''first_name''),
      acc_LastName = ToNullString w (gjson_Get w fstring ''last_name''),
      Gender = GetGender w (gjson_Get w fstring ''gender''),
      Picture = ToNullString w (gjson_Get w fstring ''picture.data.url'')\<rparr>"

text \<open>Lines 121-131: the answer once the token is there.\<close>

definition redirect_with_token :: "world \<Rightarrow> string \<Rightarrow> string \<Rightarrow> event" where
  "redirect_with_token w location token =
     (case url_Parse w location of
        Inl err \<Rightarrow> Ev_JSON 500 [''status'' \<mapsto> ''Internal server error'', ''error'' \<mapsto> err]
      | Inr u \<Rightarrow>
          let parameters = Values_Add [] ''token'' token;
              u = u\<lparr>RawQuery := Values_Encode parameters\<rparr>
          in Ev_Redirect (url_String w u) StatusTemporaryRedirect)"

definition Authenticate :: "world \<Rightarrow> Facebook \<Rightarrow> request \<Rightarrow> event list" where
  "Authenticate w o_fb r =
     (let location = query_location r
      in case getRemoteUserData w r of
           (evs, Inl err) \<Rightarrow>
             evs @ [Ev_JSON StatusUnauthorized
                      [''status'' \<mapsto> ''unauthorized'',
                       ''type'' \<mapsto> constants_Facebook w,
                       ''description'' \<mapsto> ''Cannot get user data from Facebook.'']]
         | (evs, Inr fstring) \<Rightarrow>
             let acct = remoteOauth w fstring;
                 found = GetUserDataByOAuth (UserStore o_fb) acct;
                 matchUser = matchUser_of found;
                 write = (case found of
                            Inl err \<Rightarrow> Ev_InsertUserByOAuth acct
                          | Inr _ \<Rightarrow> Ev_UpdateOAuthData acct);
                 token = fst (RetrieveToken w (ID matchUser) (Privilege matchUser)
                                (String (FirstName matchUser)) (String (LastName matchUser))
                                (String (Email matchUser)))
             in evs @ [Ev_GetUserDataByOAuth acct, write,
                       Ev_RetrieveToken (ID matchUser) (Privilege matchUser)
                         (String (FirstName matchUser)) (String (LastName matchUser))
                         (String (Email matchUser)),
                       redirect_with_token w location token])"


section \<open>Auxiliary notions for stating the properties\<close>

subsection \<open>Reading a response and a trace\<close>

definition meta_of :: "'t response \<Rightarrow> MetaOfResponse option" where
  "meta_of resp = (case fst (snd resp) ''meta'' of Some (HMeta m) \<Rightarrow> Some m | _ \<Rightarrow> None)"

definition is_insert :: "event \<Rightarrow> bool" where
  "is_insert ev = (case ev of Ev_InsertUserByOAuth a \<Rightarrow> True | _ \<Rightarrow> False)"

definition is_update :: "event \<Rightarrow> bool" where
  "is_update ev = (case ev of Ev_UpdateOAuthData a \<Rightarrow> True | _ \<Rightarrow> False)"

definition is_exchange :: "event \<Rightarrow> bool" where
  "is_exchange ev = (case ev of Ev_Exchange c \<Rightarrow> True | _ \<Rightarrow> False)"

subsection \<open>The query parameters of a URL text\<close>

text \<open>
  The query of a URL text lies between the first \<open>?\<close> and the fragment mark \<open>#\<close>; its
  parameters are the \<open>&\<close>-separated pieces, each cut at its first \<open>=\<close>. (No unescaping:
  these notions are only applied to texts without escapes.)
\<close>

fun split_all :: "char \<Rightarrow> string \<Rightarrow> string list" where
  "split_all sep [] = [[]]"
| "split_all sep (c # cs) =
     (if c = sep then [] # split_all sep cs
      else (case split_all sep cs of [] \<Rightarrow> [[c]] | x # xs \<Rightarrow> (c # x) # xs))"

definition query_of :: "string \<Rightarrow> string" where
  "query_of s = drop 1 (dropWhile (\<lambda>c. c \<noteq> CHR ''?'') (takeWhile (\<lambda>c. c \<noteq> CHR ''#'') s))"

definition query_pairs :: "string \<Rightarrow> (string \<times> string) list" where
  "query_pairs q =
     map (\<lambda>kv. (takeWhile (\<lambda>c. c \<noteq> CHR ''='') kv, drop 1 (dropWhile (\<lambda>c. c \<noteq> CHR ''='') kv)))
       (filter (\<lambda>kv. kv \<noteq> []) (split_all CHR ''&'' q))"

text \<open>
  Every parameter of \<open>location\<close> other than \<open>token\<close> is a parameter of \<open>target\<close>, with
  the same value.
\<close>

definition keeps_other_params :: "string \<Rightarrow> string \<Rightarrow> bool" where
  "keeps_other_params location target =
     list_all (\<lambda>kv. fst kv = ''token'' \<or> kv \<in> set (query_pairs (query_of target)))
       (query_pairs (query_of location))"

subsection \<open>Concrete collaborators\<close>

text \<open>
  A storage without topics (it answers with the nil slice), a storage that has a topic for
  every slug, and an error response for \<open>toPostResponse\<close>.
\<close>

definition sample_toPostResponse :: "error \<Rightarrow> string response" where
  "sample_toPostResponse e = (500, [''status'' \<mapsto> HString ''Internal server error''], None)"

definition empty_store :: "string NewsController" where
  "empty_store =
     \<lparr>Storage = \<lparr>GetFullTopics = (\<lambda>mq limit offset sort_s. (None, 0, None)),
                  GetMetaOfTopics = (\<lambda>mq limit offset sort_s. (None, 0, None))\<rparr>\<rparr>"

definition one_topic_store :: "string NewsController" where
  "one_topic_store =
     \<lparr>Storage = \<lparr>GetFullTopics = (\<lambda>mq limit offset sort_s. (Some [''full:'' @ Slug mq], 1, None)),
                  GetMetaOfTopics = (\<lambda>mq limit offset sort_s. (Some [''meta:'' @ Slug mq], 1, None))\<rparr>\<rparr>"

text \<open>
  A world for the OAuth callback. The code \<open>good-code\<close> is exchanged for the access token
  \<open>access-1\<close>, the profile has the id 42, and the session token names the user's first name.
  Of \<open>net/url\<close> it holds what the functions do on the one location used below:
  \<open>url.Parse("https://www.example.org/a?x=1")\<close> yields scheme \<open>https\<close>, host
  \<open>www.example.org\<close>, path \<open>/a\<close> and raw query \<open>x=1\<close>, and \<open>String\<close> writes such a URL as
  scheme, \<open>://\<close>, host, path, and \<open>?\<close> with the raw query when there is one.
\<close>

definition sample_world :: world where
  "sample_world =
     \<lparr>Statestr = ''state-secret'',
      AppPath = ''https://www.example.org'',
      constants_Facebook = ''Facebook'',
      Exchange = (\<lambda>code. if code = ''good-code'' then Inr ''access-1'' else Inl ''invalid code''),
      http_Get = (\<lambda>target. Inr (Inr ''profile-of-42'')),
      gjson_Get = (\<lambda>json path. if path = ''id'' then ''42''
                                 else if path = ''first_name'' then ''Ada'' else []),
      ToNullString = (\<lambda>s. \<lparr>String = s, Valid = (s \<noteq> [])\<rparr>),
      GetGender = (\<lambda>s. \<lparr>String = s, Valid = (s \<noteq> [])\<rparr>),
      RetrieveToken = (\<lambda>uid privilege firstName lastName email. (''jwt-for-'' @ firstName, None)),
      url_Parse = (\<lambda>s. if s = ''https://www.example.org/a?x=1''
                        then Inr \<lparr>Scheme = ''https'', Opaque = [], UserInfo = None,
                                  Host = ''www.example.org'', Path = ''/a'', RawPath = [],
                                  ForceQuery = False, RawQuery = ''x=1'', Fragment = []\<rparr>
                        else Inl ''parse error''),
      url_String = (\<lambda>u. Scheme u @ ''://'' @ Host u @ Path u
                          @ (if ForceQuery u \<or> RawQuery u \<noteq> [] then ''?'' @ RawQuery u else [])
                          @ (if Fragment u \<noteq> [] then ''#'' @ Fragment u else []))\<rparr>"

definition sample_user :: User where
  "sample_user = \<lparr>ID = 7, Privilege = 1,
                   FirstName = \<lparr>String = ''Ada'', Valid = True\<rparr>,
                   LastName = \<lparr>String = ''Lovelace'', Valid = True\<rparr>,
                   Email = \<lparr>String = ''ada@example.org'', Valid = True\<rparr>\<rparr>"

text \<open>A storage that knows the account, and one that does not.\<close>

definition known_user :: Facebook where
  "known_user =
     \<lparr>UserStore = \<lparr>GetUserDataByOAuth = (\<lambda>a. Inr sample_user),
                    InsertUserByOAuth = (\<lambda>a. Inl (Failure ''duplicate entry'')),
                    UpdateOAuthData = (\<lambda>a. None)\<rparr>\<rparr>"

definition unknown_user :: Facebook where
  "unknown_user =
     \<lparr>UserStore = \<lparr>GetUserDataByOAuth = (\<lambda>a. Inl (Failure ''record not found'')),
                    InsertUserByOAuth = (\<lambda>a. Inr sample_user),
                    UpdateOAuthData = (\<lambda>a. Some (Failure ''record not found''))\<rparr>\<rparr>"

definition sample_request :: request where
  "sample_request = \<lparr>query_location = ''https://www.example.org/a?x=1'',
                      form_state = ''state-secret'', form_code = ''good-code''\<rparr>"

definition forged_request :: request where
  "forged_request = \<lparr>query_location = ''https://www.example.org/a?x=1'',
                      form_state = ''guessed'', form_code = ''good-code''\<rparr>"

section \<open>Facts about the building blocks\<close>

lemma Values_Encode_token: "Values_Encode [(''token'', [tok])] = ''token='' @ QueryEscape tok"
  by (simp add: Values_Encode_def shouldEscape_def)

lemma QueryEscape_nonempty: "s \<noteq> [] \<Longrightarrow> QueryEscape s \<noteq> []"
  by (cases s) auto

lemma redirect_with_token_parsed:
  "url_Parse w location = Inr u \<Longrightarrow>
     redirect_with_token w location token =
       Ev_Redirect (url_String w (u\<lparr>RawQuery := ''token='' @ QueryEscape token\<rparr>)) 307"
  by (simp add: redirect_with_token_def Values_Encode_token StatusTemporaryRedirect_def)

lemma getRemoteUserData_success:
  "form_state r = Statestr w \<Longrightarrow> Exchange w (form_code r) = Inr accessToken \<Longrightarrow>
   http_Get w (graph_me @ QueryEscape accessToken) = Inr (Inr fstring) \<Longrightarrow>
     getRemoteUserData w r =
       ([Ev_Exchange (form_code r), Ev_Get (graph_me @ QueryEscape accessToken)], Inr fstring)"
  by (simp add: getRemoteUserData_def)

lemma getRemoteUserData_no_writes:
  "getRemoteUserData w r = (evs, Inr fstring) \<Longrightarrow>
     filter is_insert evs = [] \<and> filter is_update evs = []"
  by (auto simp add: getRemoteUserData_def Let_def is_insert_def is_update_def
        split: if_splits sum.splits)

lemma Authenticate_decoded:
  "getRemoteUserData w r = (evs, Inr fstring) \<Longrightarrow>
     Authenticate w o_fb r =
       evs @ [Ev_GetUserDataByOAuth (remoteOauth w fstring),
              (case GetUserDataByOAuth (UserStore o_fb) (remoteOauth w fstring) of
                 Inl err \<Rightarrow> Ev_InsertUserByOAuth (remoteOauth w fstring)
               | Inr user \<Rightarrow> Ev_UpdateOAuthData (remoteOauth w fstring)),
              (let m = matchUser_of (GetUserDataByOAuth (UserStore o_fb) (remoteOauth w fstring))
               in Ev_RetrieveToken (ID m) (Privilege m) (String (FirstName m)) (String (LastName m))
                    (String (Email m))),
              (let m = matchUser_of (GetUserDataByOAuth (UserStore o_fb) (remoteOauth w fstring))
               in redirect_with_token w (query_location r)
                    (fst (RetrieveToken w (ID m) (Privilege m) (String (FirstName m))
                            (String (LastName m)) (String (Email m)))))]"
  by (simp add: Authenticate_def Let_def)

lemma sample_getRemoteUserData:
  "getRemoteUserData sample_world sample_request =
     ([Ev_Exchange ''good-code'', Ev_Get (graph_me @ ''access-1'')], Inr ''profile-of-42'')"
  by (simp add: getRemoteUserData_def sample_world_def sample_request_def shouldEscape_def)

section \<open>The topic handlers\<close>

text \<open>
  C3. When parsing the query parameters failed, \<open>GetTopics\<close> makes no storage call and returns
  HTTP 200 with no error and the success envelope: \<open>records\<close> is the empty sequence and
  \<open>meta.total\<close> is 0.
\<close>

theorem GetTopics_parse_error:
  "GetTopics toPostResponse nc (Some e, mq, limit, offset, sort_s, full) =
     ([], (200, [''status'' \<mapsto> HString ''ok'',
                 ''records'' \<mapsto> HTopics (Some []),
                 ''meta'' \<mapsto> HMeta \<lparr>Total = 0, Offset = offset, Limit = limit\<rparr>], None))"
  by (simp add: GetTopics_def records_envelope_def StatusOK_def)

text \<open>
  C4. Whatever the parse outcome and whatever the storage hands back (the nil slice included),
  the \<open>records\<close> field of the envelope \<open>GetTopics\<close> returns is a sequence, never null and
  never missing. The one other outcome is that the storage call failed; then the handler
  returns what \<open>toPostResponse\<close> makes of that error.
\<close>

theorem GetTopics_records_not_null:
  "(\<exists>xs. fst (snd (snd (GetTopics toPostResponse nc qp))) ''records'' = Some (HTopics (Some xs)))
   \<or> (\<exists>c e. fst (GetTopics toPostResponse nc qp) = [c]
            \<and> snd (snd (run_call (Storage nc) c)) = Some e
            \<and> snd (GetTopics toPostResponse nc qp) = toPostResponse e)"
proof -
  obtain err mq limit offset sort_s full where qp: "qp = (err, mq, limit, offset, sort_s, full)"
    by (cases qp) auto
  show ?thesis
  proof (cases err)
    case (Some e)
    then show ?thesis by (simp add: qp GetTopics_def records_envelope_def)
  next
    case None
    define c where
      "c = (if full
            then Call_GetFullTopics mq (if limit = 0 then 10 else limit) offset
                   (if sort_s = [] then ''-publishedDate'' else sort_s)
            else Call_GetMetaOfTopics mq (if limit = 0 then 10 else limit) offset
                   (if sort_s = [] then ''-publishedDate'' else sort_s))"
    obtain ts tot serr where r: "run_call (Storage nc) c = (ts, tot, serr)"
      by (cases "run_call (Storage nc) c") auto
    show ?thesis
    proof (cases serr)
      case None
      with \<open>err = None\<close> r show ?thesis
        by (cases ts) (simp_all add: qp GetTopics_def records_envelope_def Let_def c_def)
    next
      case (Some e)
      with \<open>err = None\<close> r show ?thesis
        by (simp add: qp GetTopics_def Let_def c_def)
    qed
  qed
qed

text \<open>
  C5. When parsing succeeds with limit 0 and an empty sort, \<open>GetTopics\<close> asks the storage with
  limit 10 and sort \<open>-publishedDate\<close>. In particular, without query parameters (limit 0,
  offset 0, empty sort, \<open>full\<close> false) and with a storage that reports no topics and total 0,
  the response is HTTP 200 with status \<open>ok\<close>, records \<open>[]\<close>, and meta total 0, offset 0,
  limit 10.
\<close>

theorem GetTopics_defaults:
  "fst (GetTopics toPostResponse nc (None, mq, 0, offset, [], full)) =
     [if full then Call_GetFullTopics mq 10 offset ''-publishedDate''
      else Call_GetMetaOfTopics mq 10 offset ''-publishedDate'']
   \<and> (run_call (Storage nc) (Call_GetMetaOfTopics mq 10 0 ''-publishedDate'') = (ts, 0, None)
        \<and> (ts = None \<or> ts = Some [])
      \<longrightarrow> GetTopics toPostResponse nc (None, mq, 0, 0, [], False) =
            ([Call_GetMetaOfTopics mq 10 0 ''-publishedDate''],
             (200, [''status'' \<mapsto> HString ''ok'',
                    ''records'' \<mapsto> HTopics (Some []),
                    ''meta'' \<mapsto> HMeta \<lparr>Total = 0, Offset = 0, Limit = 10\<rparr>], None)))"
  by (auto simp add: GetTopics_def records_envelope_def StatusOK_def Let_def
        split: prod.splits option.splits)

text \<open>The same on the storage without topics.\<close>

theorem GetTopics_defaults_witness:
  "GetTopics sample_toPostResponse empty_store (None, zero_MongoQuery, 0, 0, [], False) =
     ([Call_GetMetaOfTopics zero_MongoQuery 10 0 ''-publishedDate''],
      (200, [''status'' \<mapsto> HString ''ok'',
             ''records'' \<mapsto> HTopics (Some []),
             ''meta'' \<mapsto> HMeta \<lparr>Total = 0, Offset = 0, Limit = 10\<rparr>], None))"
  using GetTopics_defaults [of sample_toPostResponse empty_store zero_MongoQuery 0 False None]
  by (simp add: empty_store_def)

text \<open>
  C7. \<open>GetATopic\<close> asks the storage once, with the requested slug as the only filter, limit 1,
  offset 0 and sort \<open>-publishedDate\<close>. When that call succeeds, an empty result gives HTTP 404
  with status and error \<open>Record Not Found\<close>, and a non-empty result gives HTTP 200 with the
  first topic as the single \<open>record\<close>.
\<close>

theorem GetATopic_lookup:
  assumes "c = (if fst (ParseBool fullq)
                then Call_GetFullTopics \<lparr>Slug = slug, Filters = []\<rparr> 1 0 ''-publishedDate''
                else Call_GetMetaOfTopics \<lparr>Slug = slug, Filters = []\<rparr> 1 0 ''-publishedDate'')"
      and "run_call (Storage nc) c = (ts, tot, None)"
  shows "GetATopic toPostResponse nc slug fullq =
           ([c],
            (case ts of
               Some (t # rest) \<Rightarrow>
                 (200, [''status'' \<mapsto> HString ''ok'', ''record'' \<mapsto> HTopic t], None)
             | _ \<Rightarrow>
                 (404, [''status'' \<mapsto> HString ''Record Not Found'',
                        ''error'' \<mapsto> HString ''Record Not Found''], None)))"
  using assms
  by (auto simp add: GetATopic_def zero_MongoQuery_def StatusOK_def StatusNotFound_def
        not_found_body_def record_envelope_def Let_def
        split: prod.splits option.splits list.splits)

text \<open>A slug the storage has no topic for, and one it has.\<close>

theorem GetATopic_lookup_witness:
  "GetATopic sample_toPostResponse empty_store ''no-such-topic'' ''false'' =
     ([Call_GetMetaOfTopics \<lparr>Slug = ''no-such-topic'', Filters = []\<rparr> 1 0 ''-publishedDate''],
      (404, [''status'' \<mapsto> HString ''Record Not Found'',
             ''error'' \<mapsto> HString ''Record Not Found''], None))
   \<and> GetATopic sample_toPostResponse one_topic_store ''a-topic'' ''true'' =
     ([Call_GetFullTopics \<lparr>Slug = ''a-topic'', Filters = []\<rparr> 1 0 ''-publishedDate''],
      (200, [''status'' \<mapsto> HString ''ok'', ''record'' \<mapsto> HTopic ''full:a-topic''], None))"
proof -
  have f: "\<not> fst (ParseBool ''false'')" and t: "fst (ParseBool ''true'')"
    by (simp_all add: ParseBool_def)
  have "GetATopic sample_toPostResponse empty_store ''no-such-topic'' ''false'' =
          ([Call_GetMetaOfTopics \<lparr>Slug = ''no-such-topic'', Filters = []\<rparr> 1 0 ''-publishedDate''],
           (case (None :: string list option) of
              Some (t # rest) \<Rightarrow>
                (200, [''status'' \<mapsto> HString ''ok'', ''record'' \<mapsto> HTopic t], None)
            | _ \<Rightarrow>
                (404, [''status'' \<mapsto> HString ''Record Not Found'',
                       ''error'' \<mapsto> HString ''Record Not Found''], None)))"
    by (rule GetATopic_lookup [where tot = 0]) (simp_all add: f empty_store_def)
  moreover
  have "GetATopic sample_toPostResponse one_topic_store ''a-topic'' ''true'' =
          ([Call_GetFullTopics \<lparr>Slug = ''a-topic'', Filters = []\<rparr> 1 0 ''-publishedDate''],
           (case Some [''full:a-topic''] of
              Some (t # rest) \<Rightarrow>
                (200, [''status'' \<mapsto> HString ''ok'', ''record'' \<mapsto> HTopic t], None)
            | _ \<Rightarrow>
                (404, [''status'' \<mapsto> HString ''Record Not Found'',
                       ''error'' \<mapsto> HString ''Record Not Found''], None)))"
    by (rule GetATopic_lookup [where tot = 1]) (simp_all add: t one_topic_store_def)
  ultimately show ?thesis by simp
qed

text \<open>
  C9. In the parse-error branch of \<open>GetTopics\<close> the envelope echoes the limit and the offset
  the failed parse produced; the default limit 10 is not applied, so a failed parse with
  limit 0 is answered with \<open>meta.limit\<close> 0.
\<close>

theorem GetTopics_parse_error_meta:
  "meta_of (snd (GetTopics toPostResponse nc (Some e, mq, limit, offset, sort_s, full)))
     = Some \<lparr>Total = 0, Offset = offset, Limit = limit\<rparr>
   \<and> (limit = 0 \<longrightarrow>
        meta_of (snd (GetTopics toPostResponse nc (Some e, mq, limit, offset, sort_s, full)))
          \<noteq> Some \<lparr>Total = 0, Offset = offset, Limit = 10\<rparr>)"
  by (simp add: GetTopics_def records_envelope_def meta_of_def)

text \<open>A failed parse with limit 0 and offset 3.\<close>

theorem GetTopics_parse_error_meta_witness:
  "meta_of (snd (GetTopics sample_toPostResponse one_topic_store
       (Some (Failure ''bad query''), zero_MongoQuery, 0, 3, [], False)))
     = Some \<lparr>Total = 0, Offset = 3, Limit = 0\<rparr>"
  using GetTopics_parse_error_meta [of sample_toPostResponse one_topic_store "Failure ''bad query''"
          zero_MongoQuery 0 3 "[]" False]
  by simp

text \<open>
  C10. \<open>GetATopic\<close> drops the error of parsing \<open>full\<close>: a value that is no boolean literal
  counts as false, so the meta projection is read, and the handler answers exactly as it
  does for \<open>full=false\<close>.
\<close>

theorem GetATopic_malformed_full:
  "snd (ParseBool fullq) \<noteq> None \<Longrightarrow>
     fst (GetATopic toPostResponse nc slug fullq) =
       [Call_GetMetaOfTopics \<lparr>Slug = slug, Filters = []\<rparr> 1 0 ''-publishedDate'']
     \<and> GetATopic toPostResponse nc slug fullq = GetATopic toPostResponse nc slug ''false''"
  by (simp add: GetATopic_def ParseBool_def zero_MongoQuery_def Let_def
        split: if_splits prod.splits option.splits list.splits)

text \<open>The value \<open>maybe\<close> for \<open>full\<close>.\<close>

theorem GetATopic_malformed_full_witness:
  "snd (ParseBool ''maybe'') \<noteq> None
   \<and> GetATopic sample_toPostResponse one_topic_store ''a-topic'' ''maybe'' =
     ([Call_GetMetaOfTopics \<lparr>Slug = ''a-topic'', Filters = []\<rparr> 1 0 ''-publishedDate''],
      (200, [''status'' \<mapsto> HString ''ok'', ''record'' \<mapsto> HTopic ''meta:a-topic''], None))"
proof -
  have h: "snd (ParseBool ''maybe'') \<noteq> None" by (simp add: ParseBool_def)
  show ?thesis
    using h GetATopic_malformed_full [OF h, of sample_toPostResponse one_topic_store "''a-topic''"]
    by (simp add: GetATopic_def one_topic_store_def ParseBool_def zero_MongoQuery_def
          record_envelope_def StatusOK_def)
qed

section \<open>The OAuth callback\<close>

text \<open>
  C1, as the code has it. After a successful callback (the state matches, the exchange and
  the profile fetch succeed, \<open>location\<close> parses) \<open>Authenticate\<close> answers with one 307 redirect.
  Its target is the parsed \<open>location\<close> whose whole query is replaced by the single parameter
  \<open>token\<close>, carrying the escaped session token that \<open>RetrieveToken\<close> returned; the value is
  not empty when that token is not.
\<close>

theorem Authenticate_redirects_with_token:
  assumes "form_state r = Statestr w"
      and "Exchange w (form_code r) = Inr accessToken"
      and "http_Get w (graph_me @ QueryEscape accessToken) = Inr (Inr fstring)"
      and "url_Parse w (query_location r) = Inr u"
      and "m = matchUser_of (GetUserDataByOAuth (UserStore o_fb) (remoteOauth w fstring))"
      and "token = fst (RetrieveToken w (ID m) (Privilege m) (String (FirstName m))
                          (String (LastName m)) (String (Email m)))"
  shows "Authenticate w o_fb r =
           [Ev_Exchange (form_code r),
            Ev_Get (graph_me @ QueryEscape accessToken),
            Ev_GetUserDataByOAuth (remoteOauth w fstring),
            (case GetUserDataByOAuth (UserStore o_fb) (remoteOauth w fstring) of
               Inl err \<Rightarrow> Ev_InsertUserByOAuth (remoteOauth w fstring)
             | Inr user \<Rightarrow> Ev_UpdateOAuthData (remoteOauth w fstring)),
            Ev_RetrieveToken (ID m) (Privilege m) (String (FirstName m)) (String (LastName m))
              (String (Email m)),
            Ev_Redirect (url_String w (u\<lparr>RawQuery := ''token='' @ QueryEscape token\<rparr>)) 307]
         \<and> (token \<noteq> [] \<longrightarrow> QueryEscape token \<noteq> [])"
  using assms
  by (simp add: Authenticate_decoded [OF getRemoteUserData_success] Let_def
        redirect_with_token_parsed QueryEscape_nonempty)

text \<open>The callback of a known user, sent back to \<open>https://www.example.org/a?x=1\<close>.\<close>

theorem Authenticate_redirects_with_token_witness:
  "last (Authenticate sample_world known_user sample_request) =
     Ev_Redirect ''https://www.example.org/a?token=jwt-for-Ada'' 307"
proof -
  have "Authenticate sample_world known_user sample_request =
          [Ev_Exchange (form_code sample_request),
           Ev_Get (graph_me @ QueryEscape ''access-1''),
           Ev_GetUserDataByOAuth (remoteOauth sample_world ''profile-of-42''),
           (case GetUserDataByOAuth (UserStore known_user) (remoteOauth sample_world ''profile-of-42'') of
              Inl err \<Rightarrow> Ev_InsertUserByOAuth (remoteOauth sample_world ''profile-of-42'')
            | Inr user \<Rightarrow> Ev_UpdateOAuthData (remoteOauth sample_world ''profile-of-42'')),
           Ev_RetrieveToken (ID sample_user) (Privilege sample_user) (String (FirstName sample_user))
             (String (LastName sample_user)) (String (Email sample_user)),
           Ev_Redirect (url_String sample_world
             (\<lparr>Scheme = ''https'', Opaque = [], UserInfo = None,
               Host = ''www.example.org'', Path = ''/a'', RawPath = [],
               ForceQuery = False, RawQuery = ''x=1'', Fragment = []\<rparr>
              \<lparr>RawQuery := ''token='' @ QueryEscape ''jwt-for-Ada''\<rparr>)) 307]
        \<and> (''jwt-for-Ada'' \<noteq> [] \<longrightarrow> QueryEscape ''jwt-for-Ada'' \<noteq> [])"
    by (rule Authenticate_redirects_with_token)
       (simp_all add: sample_world_def sample_request_def known_user_def sample_user_def
          matchUser_of_def shouldEscape_def)
  then show ?thesis
    by (simp add: sample_world_def shouldEscape_def)
qed

text \<open>
  C1, as the specification has it, fails: the location \<open>https://www.example.org/a?x=1\<close>
  carries the parameter \<open>x=1\<close>, and the redirect goes to
  \<open>https://www.example.org/a?token=jwt-for-Ada\<close>, where \<open>x\<close> is gone.
\<close>

theorem Authenticate_drops_location_query:
  "Authenticate sample_world known_user sample_request =
     [Ev_Exchange ''good-code'',
      Ev_Get (graph_me @ ''access-1''),
      Ev_GetUserDataByOAuth (remoteOauth sample_world ''profile-of-42''),
      Ev_UpdateOAuthData (remoteOauth sample_world ''profile-of-42''),
      Ev_RetrieveToken 7 1 ''Ada'' ''Lovelace'' ''ada@example.org'',
      Ev_Redirect ''https://www.example.org/a?token=jwt-for-Ada'' 307]
   \<and> query_pairs (query_of (query_location sample_request)) = [(''x'', ''1'')]
   \<and> query_pairs (query_of ''https://www.example.org/a?token=jwt-for-Ada'')
       = [(''token'', ''jwt-for-Ada'')]
   \<and> \<not> keeps_other_params (query_location sample_request)
         ''https://www.example.org/a?token=jwt-for-Ada''"
  by (simp add: Authenticate_def getRemoteUserData_def redirect_with_token_def Values_Encode_token
        sample_world_def known_user_def sample_request_def sample_user_def matchUser_of_def
        shouldEscape_def StatusTemporaryRedirect_def remoteOauth_def Let_def
        query_pairs_def query_of_def keeps_other_params_def)

text \<open>
  C2. When the \<open>state\<close> form value differs from the configured state string,
  \<open>getRemoteUserData\<close> redirects to the login path and returns an error, and no token
  exchange is attempted, neither there nor anywhere else in \<open>Authenticate\<close>.
\<close>

theorem state_mismatch_skips_exchange:
  assumes "form_state r \<noteq> Statestr w"
  shows "getRemoteUserData w r =
           ([Ev_Redirect (AppPath w @ ''/login'') 307],
            Inl (NewAppError ''OAuth state'' ''controllers.oauth.facebook'' ''Invalid oauth state'' 500))
         \<and> filter is_exchange (fst (getRemoteUserData w r)) = []
         \<and> filter is_exchange (Authenticate w o_fb r) = []"
  using assms
  by (simp add: getRemoteUserData_def Authenticate_def StatusTemporaryRedirect_def is_exchange_def)

text \<open>A callback with a guessed state.\<close>

theorem state_mismatch_skips_exchange_witness:
  "form_state forged_request \<noteq> Statestr sample_world
   \<and> getRemoteUserData sample_world forged_request =
       ([Ev_Redirect ''https://www.example.org/login'' 307],
        Inl (NewAppError ''OAuth state'' ''controllers.oauth.facebook'' ''Invalid oauth state'' 500))
   \<and> filter is_exchange (Authenticate sample_world known_user forged_request) = []"
proof -
  have h: "form_state forged_request \<noteq> Statestr sample_world"
    by (simp add: forged_request_def sample_world_def)
  show ?thesis
    using h state_mismatch_skips_exchange [OF h, of known_user]
    by (simp add: sample_world_def)
qed

text \<open>
  C6. Once the profile is decoded: when the lookup by the account fails, \<open>Authenticate\<close> makes
  exactly one \<open>InsertUserByOAuth\<close> call and no \<open>UpdateOAuthData\<close> call; when the lookup
  succeeds, it makes no insert call and exactly one update call.
\<close>

theorem reconciliation_calls:
  assumes "getRemoteUserData w r = (evs, Inr fstring)"
  shows "(case GetUserDataByOAuth (UserStore o_fb) (remoteOauth w fstring) of
            Inl err \<Rightarrow> length (filter is_insert (Authenticate w o_fb r)) = 1
                        \<and> length (filter is_update (Authenticate w o_fb r)) = 0
          | Inr user \<Rightarrow> length (filter is_insert (Authenticate w o_fb r)) = 0
                        \<and> length (filter is_update (Authenticate w o_fb r)) = 1)"
proof -
  have pre: "filter is_insert evs = []" "filter is_update evs = []"
    using getRemoteUserData_no_writes [OF assms] by simp_all
  have tail: "\<not> is_insert (redirect_with_token w l t)" "\<not> is_update (redirect_with_token w l t)"
    for l t
    by (simp_all add: redirect_with_token_def is_insert_def is_update_def Let_def split: sum.splits)
  show ?thesis
    by (cases "GetUserDataByOAuth (UserStore o_fb) (remoteOauth w fstring)")
       (simp_all add: Authenticate_decoded [OF assms] pre tail Let_def,
        simp_all add: is_insert_def is_update_def)
qed

text \<open>The same callback against the storage without the account and the one with it.\<close>

theorem reconciliation_calls_witness:
  "length (filter is_insert (Authenticate sample_world unknown_user sample_request)) = 1
   \<and> length (filter is_update (Authenticate sample_world unknown_user sample_request)) = 0
   \<and> length (filter is_insert (Authenticate sample_world known_user sample_request)) = 0
   \<and> length (filter is_update (Authenticate sample_world known_user sample_request)) = 1"
  using reconciliation_calls [OF sample_getRemoteUserData, of unknown_user]
        reconciliation_calls [OF sample_getRemoteUserData, of known_user]
  by (simp add: unknown_user_def known_user_def)

text \<open>
  C8. On the first-login path the result of \<open>InsertUserByOAuth\<close> is not looked at: when the
  lookup fails, the handler goes on to issue the token whatever the insert returns, and the
  token is computed from the zero-valued user record (id 0, privilege 0, empty names and
  e-mail), not from the inserted user.
\<close>

theorem insert_result_unchecked:
  assumes "getRemoteUserData w r = (evs, Inr fstring)"
      and "GetUserDataByOAuth (UserStore o_fb) (remoteOauth w fstring) = Inl err"
  shows "Authenticate w o_fb r =
           evs @ [Ev_GetUserDataByOAuth (remoteOauth w fstring),
                  Ev_InsertUserByOAuth (remoteOauth w fstring),
                  Ev_RetrieveToken 0 0 [] [] [],
                  redirect_with_token w (query_location r) (fst (RetrieveToken w 0 0 [] [] []))]
         \<and> Authenticate w (o_fb\<lparr>UserStore := (UserStore o_fb)\<lparr>InsertUserByOAuth := ins\<rparr>\<rparr>) r
             = Authenticate w o_fb r"
  using assms
  by (simp add: Authenticate_decoded [OF assms(1)] Let_def matchUser_of_def zero_User_def
        zero_NullString_def)

text \<open>The first login of the account, with a storage whose insert returns a user.\<close>

theorem insert_result_unchecked_witness:
  "Authenticate sample_world unknown_user sample_request =
     [Ev_Exchange ''good-code'',
      Ev_Get (graph_me @ ''access-1''),
      Ev_GetUserDataByOAuth (remoteOauth sample_world ''profile-of-42''),
      Ev_InsertUserByOAuth (remoteOauth sample_world ''profile-of-42''),
      Ev_RetrieveToken 0 0 [] [] [],
      Ev_Redirect ''https://www.example.org/a?token=jwt-for-'' 307]"
proof -
  have l: "GetUserDataByOAuth (UserStore unknown_user) (remoteOauth sample_world ''profile-of-42'')
             = Inl (Failure ''record not found'')"
    by (simp add: unknown_user_def)
  have "redirect_with_token sample_world (query_location sample_request)
          (fst (RetrieveToken sample_world 0 0 [] [] []))
        = Ev_Redirect ''https://www.example.org/a?token=jwt-for-'' 307"
    by (simp add: redirect_with_token_def sample_world_def sample_request_def Values_Encode_token
          shouldEscape_def StatusTemporaryRedirect_def)
  with insert_result_unchecked [OF sample_getRemoteUserData l] show ?thesis
    by simp
qed

end
